theory Spec2Isabelle
  imports Complex_Main
begin

section \<open>JavaScript strings\<close>

text \<open>
  A JavaScript string is a sequence of UTF-16 code units. The extraction code of the
  edge functions distinguishes code units above the ASCII range (typographic quotes,
  dashes, C1 controls, Japanese ranges), so a string is a list of code units, each a
  natural number below 65536. \<open>js\<close> turns an ASCII literal into such a string.
\<close>

type_synonym code_unit = nat
type_synonym jsstring = "code_unit list"

definition js :: "string \<Rightarrow> jsstring" where
  "js s = map of_char s"

text \<open>
  The ECMAScript classes WhiteSpace and LineTerminator: what \<open>String.prototype.trim\<close>
  removes and what \<open>\s\<close> matches in a regular expression.
\<close>

definition is_space :: "code_unit \<Rightarrow> bool" where
  "is_space c \<longleftrightarrow>
     c = 9 \<or> c = 10 \<or> c = 11 \<or> c = 12 \<or> c = 13 \<or> c = 32 \<or> c = 160 \<or> c = 5760 \<or>
     (8192 \<le> c \<and> c \<le> 8202) \<or> c = 8232 \<or> c = 8233 \<or> c = 8239 \<or> c = 8287 \<or>
     c = 12288 \<or> c = 65279"

definition trim :: "jsstring \<Rightarrow> jsstring" where
  "trim s = rev (dropWhile is_space (rev (dropWhile is_space s)))"

definition startsWith :: "jsstring \<Rightarrow> jsstring \<Rightarrow> bool" where
  "startsWith s p \<longleftrightarrow> take (length p) s = p"

definition endsWith :: "jsstring \<Rightarrow> jsstring \<Rightarrow> bool" where
  "endsWith s p \<longleftrightarrow> length p \<le> length s \<and> drop (length s - length p) s = p"

text \<open>\<open>indexOf\<close> and \<open>lastIndexOf\<close> of a one-character needle; \<open>-1\<close> when absent.\<close>

fun indexOf :: "jsstring \<Rightarrow> code_unit \<Rightarrow> int" where
  "indexOf [] c = - 1"
| "indexOf (x # xs) c =
     (if x = c then 0 else (let i = indexOf xs c in if i < 0 then - 1 else i + 1))"

definition lastIndexOf :: "jsstring \<Rightarrow> code_unit \<Rightarrow> int" where
  "lastIndexOf s c =
     (let i = indexOf (rev s) c in if i < 0 then - 1 else int (length s) - 1 - i)"

text \<open>\<open>s.substring(a)\<close> and \<open>s.substring(0, b)\<close> for indices inside the string.\<close>

definition substring_from :: "jsstring \<Rightarrow> nat \<Rightarrow> jsstring" where
  "substring_from s a = drop a s"

definition substring_to :: "jsstring \<Rightarrow> nat \<Rightarrow> jsstring" where
  "substring_to s b = take b s"

subsection \<open>Global regular-expression replacement\<close>

text \<open>
  \<open>s.replace(/re/g, r)\<close> scans from the left; where the expression matches it emits the
  replacement and resumes after the match, otherwise it copies one code unit. A matcher
  says, for the input from the current position on, whether the expression matches a
  prefix there, and with which replacement and length. \<open>replace_from m k\<close> still has
  \<open>k\<close> code units of the last match to skip.
\<close>

type_synonym matcher = "jsstring \<Rightarrow> (jsstring \<times> nat) option"

fun replace_from :: "matcher \<Rightarrow> nat \<Rightarrow> jsstring \<Rightarrow> jsstring" where
  "replace_from m k [] = []"
| "replace_from m k (c # cs) =
     (if 0 < k then replace_from m (k - 1) cs
      else (case m (c # cs) of
              Some (r, n) \<Rightarrow> r @ replace_from m (n - 1) cs
            | None \<Rightarrow> c # replace_from m 0 cs))"

definition replace_all :: "matcher \<Rightarrow> jsstring \<Rightarrow> jsstring" where
  "replace_all m s = replace_from m 0 s"

text \<open>A character class replaced everywhere by a fixed string (empty to delete).\<close>

definition replace_class :: "(code_unit \<Rightarrow> bool) \<Rightarrow> jsstring \<Rightarrow> jsstring \<Rightarrow> jsstring" where
  "replace_class P r s = concat (map (\<lambda>c. if P c then r else [c]) s)"


section \<open>Cleaning steps shared by the handlers\<close>

text \<open>
  \<open>/^```json\s*/\<close> and \<open>/^```\s*/\<close>: the opening fence and the white space after it.
  \<open>/\s*```$/\<close>: a closing fence at the very end, with the white space before it.
\<close>

definition strip_prefix_ws :: "jsstring \<Rightarrow> jsstring \<Rightarrow> jsstring" where
  "strip_prefix_ws p s = (if startsWith s p then dropWhile is_space (drop (length p) s) else s)"

definition strip_closing_fence :: "jsstring \<Rightarrow> jsstring" where
  "strip_closing_fence s =
     (if endsWith s (js ''```'') then rev (dropWhile is_space (drop 3 (rev s))) else s)"

definition strip_fences :: "jsstring \<Rightarrow> jsstring" where
  "strip_fences s0 =
     (let s1 = (if startsWith s0 (js ''```json'')
                then strip_closing_fence (strip_prefix_ws (js ''```json'') s0) else s0);
          s2 = (if startsWith s1 (js ''```'')
                then strip_closing_fence (strip_prefix_ws (js ''```'') s1) else s1)
      in s2)"

text \<open>Drop what precedes the first \<open>{\<close> and what follows the last \<open>}\<close>.\<close>

definition trim_to_braces :: "jsstring \<Rightarrow> jsstring" where
  "trim_to_braces s0 =
     (let jsonStart = indexOf s0 123;
          s1 = (if jsonStart > 0 then substring_from s0 (nat jsonStart) else s0);
          jsonEnd = lastIndexOf s1 125;
          s2 = (if jsonEnd > 0 \<and> jsonEnd < int (length s1) - 1
                then substring_to s1 (nat (jsonEnd + 1)) else s1)
      in s2)"

definition is_control :: "code_unit \<Rightarrow> bool" where
  "is_control c \<longleftrightarrow> c \<le> 0x1F \<or> (0x7F \<le> c \<and> c \<le> 0x9F)"

definition is_smart_double :: "code_unit \<Rightarrow> bool" where
  "is_smart_double c \<longleftrightarrow> c = 0x201C \<or> c = 0x201D"

definition is_smart_single :: "code_unit \<Rightarrow> bool" where
  "is_smart_single c \<longleftrightarrow> c = 0x2018 \<or> c = 0x2019"

definition is_smart_dash :: "code_unit \<Rightarrow> bool" where
  "is_smart_dash c \<longleftrightarrow> c = 0x2013 \<or> c = 0x2014"

definition is_japanese :: "code_unit \<Rightarrow> bool" where
  "is_japanese c \<longleftrightarrow>
     (0x3040 \<le> c \<and> c \<le> 0x309F) \<or> (0x30A0 \<le> c \<and> c \<le> 0x30FF) \<or> (0x4E00 \<le> c \<and> c \<le> 0x9FAF)"

definition is_non_ascii :: "code_unit \<Rightarrow> bool" where
  "is_non_ascii c \<longleftrightarrow> 0x80 \<le> c \<and> c \<le> 0xFFFF"

section \<open>Syntax repairs of the course generator\<close>

text \<open>The white space a match skips, and what follows it.\<close>

definition after_spaces :: "jsstring \<Rightarrow> jsstring \<times> jsstring" where
  "after_spaces s = (takeWhile is_space s, dropWhile is_space s)"

text \<open>\<open>/,(\s*[}\]])/g\<close> replaced by \<open>$1\<close>: a comma before a closer is dropped.\<close>

definition m_trailing_comma :: matcher where
  "m_trailing_comma s =
     (case s of
        [] \<Rightarrow> None
      | c # cs \<Rightarrow>
          if c = 44 then
            (case after_spaces cs of
               (ws, []) \<Rightarrow> None
             | (ws, d # _) \<Rightarrow>
                 if d = 125 \<or> d = 93 then Some (ws @ [d], 2 + length ws) else None)
          else None)"

text \<open>
  \<open>/}(\s*){/g\<close> replaced by \<open>},$1{\<close> and \<open>/](\s*)\[/g\<close> by \<open>],$1[\<close>: a comma is put
  between a closer and the opener that follows it.
\<close>

definition m_missing_comma :: "code_unit \<Rightarrow> code_unit \<Rightarrow> matcher" where
  "m_missing_comma closer opener s =
     (case s of
        [] \<Rightarrow> None
      | c # cs \<Rightarrow>
          if c = closer then
            (case after_spaces cs of
               (ws, []) \<Rightarrow> None
             | (ws, d # _) \<Rightarrow>
                 if d = opener then Some ([closer, 44] @ ws @ [opener], 2 + length ws) else None)
          else None)"

text \<open>
  \<open>/"([^"]*)"([^",:}\]]*)"([^",:}\]]*)":/g\<close> replaced by \<open>"$1\"$2\"$3":\<close>. No group can
  hold a quote and each is followed by one, so each group is the text up to the next
  quote; the second and third must be free of comma, colon, \<open>}\<close> and \<open>]\<close>, and a colon
  must follow the fourth quote.
\<close>

definition up_to_quote :: "jsstring \<Rightarrow> (jsstring \<times> jsstring) option" where
  "up_to_quote s =
     (case dropWhile (\<lambda>c. c \<noteq> 34) s of
        [] \<Rightarrow> None
      | q # rest \<Rightarrow> Some (takeWhile (\<lambda>c. c \<noteq> 34) s, rest))"

definition plain_group :: "jsstring \<Rightarrow> bool" where
  "plain_group g = list_all (\<lambda>c. c \<noteq> 44 \<and> c \<noteq> 58 \<and> c \<noteq> 125 \<and> c \<noteq> 93) g"

definition m_unescaped_quotes :: matcher where
  "m_unescaped_quotes s =
     (case s of
        [] \<Rightarrow> None
      | c # cs \<Rightarrow>
          if c = 34 then
            (case up_to_quote cs of
               None \<Rightarrow> None
             | Some (g1, r1) \<Rightarrow>
                 (case up_to_quote r1 of
                    None \<Rightarrow> None
                  | Some (g2, r2) \<Rightarrow>
                      (case up_to_quote r2 of
                         None \<Rightarrow> None
                       | Some (g3, r3) \<Rightarrow>
                           if plain_group g2 \<and> plain_group g3 \<and> take 1 r3 = [58] then
                             Some ([34] @ g1 @ [92, 34] @ g2 @ [92, 34] @ g3 @ [34, 58],
                                   length g1 + length g2 + length g3 + 5)
                           else None)))
          else None)"

definition fix_common_issues :: "jsstring \<Rightarrow> jsstring" where
  "fix_common_issues cleanedContent =
     (let f1 = replace_all m_trailing_comma cleanedContent;
          f2 = replace_all (m_missing_comma 125 123) f1;
          f3 = replace_all (m_missing_comma 93 91) f2;
          f4 = replace_all m_unescaped_quotes f3
      in f4)"

text \<open>The character cleaning of the course generator, in the order of the source.\<close>

definition clean_characters :: "jsstring \<Rightarrow> jsstring" where
  "clean_characters s =
     replace_class is_non_ascii []
       (replace_class is_japanese []
         (replace_class (\<lambda>c. c = 0x2026) (js ''...'')
           (replace_class is_smart_dash (js ''-'')
             (replace_class is_smart_single [39]
               (replace_class is_smart_double [34]
                 (replace_class is_control [] s))))))"

text \<open>The roadmap generator cleans fewer classes and repairs nothing.\<close>

definition clean_special_characters :: "jsstring \<Rightarrow> jsstring" where
  "clean_special_characters s =
     replace_class is_smart_dash (js ''-'')
       (replace_class is_smart_single [39]
         (replace_class is_smart_double [34]
           (replace_class is_control [] s)))"

section \<open>JSON values and \<open>JSON.parse\<close>\<close>

text \<open>
  \<open>JSON.parse\<close> belongs to the platform, not to the repository. It is modelled by a
  recursive-descent parser of the JSON grammar (ECMA-404), which is what ECMAScript
  prescribes for it. An object keeps its members in source order, duplicates included;
  property access takes the last member of a name, as the parsed object would. A number
  is kept as the exact value of its decimal literal.
\<close>

datatype json =
    JNull
  | JBool bool
  | JNumber rat
  | JString jsstring
  | JArray "json list"
  | JObject "(jsstring \<times> json) list"

datatype parse_error = SyntaxError | OutOfFuel

definition json_ws :: "code_unit \<Rightarrow> bool" where
  "json_ws c \<longleftrightarrow> c = 32 \<or> c = 9 \<or> c = 10 \<or> c = 13"

definition skip_ws :: "jsstring \<Rightarrow> jsstring" where
  "skip_ws s = dropWhile json_ws s"

definition is_digit :: "code_unit \<Rightarrow> bool" where
  "is_digit c \<longleftrightarrow> 48 \<le> c \<and> c \<le> 57"

definition hex_val :: "code_unit \<Rightarrow> nat option" where
  "hex_val c =
     (if 48 \<le> c \<and> c \<le> 57 then Some (c - 48)
      else if 65 \<le> c \<and> c \<le> 70 then Some (c - 55)
      else if 97 \<le> c \<and> c \<le> 102 then Some (c - 87)
      else None)"

definition hex4 :: "code_unit \<Rightarrow> code_unit \<Rightarrow> code_unit \<Rightarrow> code_unit \<Rightarrow> code_unit option" where
  "hex4 a b c d =
     (case (hex_val a, hex_val b, hex_val c, hex_val d) of
        (Some x, Some y, Some z, Some w) \<Rightarrow> Some (((x * 16 + y) * 16 + z) * 16 + w)
      | _ \<Rightarrow> None)"

text \<open>The character an escape \<open>\c\<close> stands for (\<open>\u\<close> apart).\<close>

definition escape_char :: "code_unit \<Rightarrow> code_unit option" where
  "escape_char e =
     (if e = 34 then Some 34
      else if e = 92 then Some 92
      else if e = 47 then Some 47
      else if e = 98 then Some 8
      else if e = 102 then Some 12
      else if e = 110 then Some 10
      else if e = 114 then Some 13
      else if e = 116 then Some 9
      else None)"

definition cons_char :: "code_unit \<Rightarrow> (jsstring \<times> jsstring) option \<Rightarrow> (jsstring \<times> jsstring) option" where
  "cons_char c r = (case r of None \<Rightarrow> None | Some (str, rest) \<Rightarrow> Some (c # str, rest))"

text \<open>
  The characters of a string literal after its opening quote: the decoded string and
  the input after the closing quote. A raw code unit below 0x20 is not allowed.
\<close>

fun parse_chars :: "jsstring \<Rightarrow> (jsstring \<times> jsstring) option" where
  "parse_chars [] = None"
| "parse_chars [c] = (if c = 34 then Some ([], []) else None)"
| "parse_chars (c # e # es) =
     (if c = 34 then Some ([], e # es)
      else if c = 92 then
        (if e = 117 then
           (case es of
              h1 # h2 # h3 # h4 # rest \<Rightarrow>
                (case hex4 h1 h2 h3 h4 of
                   Some u \<Rightarrow> cons_char u (parse_chars rest)
                 | None \<Rightarrow> None)
            | _ \<Rightarrow> None)
         else
           (case escape_char e of
              Some x \<Rightarrow> cons_char x (parse_chars es)
            | None \<Rightarrow> None))
      else if c < 32 then None
      else cons_char c (parse_chars (e # es)))"

definition digits_value :: "jsstring \<Rightarrow> nat" where
  "digits_value ds = foldl (\<lambda>acc d. acc * 10 + (d - 48)) 0 ds"

definition scale10 :: "int \<Rightarrow> int \<Rightarrow> rat" where
  "scale10 m e = (if 0 \<le> e then of_int (m * 10 ^ nat e) else of_int m / of_int (10 ^ nat (- e)))"

text \<open>
  A number literal: optional minus, integer part (a single 0, or digits not starting
  with 0), optional fraction, optional exponent.
\<close>

definition parse_int_part :: "jsstring \<Rightarrow> (jsstring \<times> jsstring) option" where
  "parse_int_part s =
     (case s of
        [] \<Rightarrow> None
      | c # cs \<Rightarrow>
          if c = 48 then Some ([48], cs)
          else if is_digit c then Some (takeWhile is_digit s, dropWhile is_digit s)
          else None)"

definition parse_frac_part :: "jsstring \<Rightarrow> (jsstring \<times> jsstring) option" where
  "parse_frac_part s =
     (case s of
        [] \<Rightarrow> Some ([], s)
      | c # cs \<Rightarrow>
          if c = 46 then
            (if takeWhile is_digit cs = [] then None
             else Some (takeWhile is_digit cs, dropWhile is_digit cs))
          else Some ([], s))"

definition parse_exp_part :: "jsstring \<Rightarrow> (int \<times> jsstring) option" where
  "parse_exp_part s =
     (case s of
        [] \<Rightarrow> Some (0, s)
      | c # cs \<Rightarrow>
          if c = 101 \<or> c = 69 then
            (let neg = (take 1 cs = [45]);
                 ds = (if take 1 cs = [45] \<or> take 1 cs = [43] then drop 1 cs else cs)
             in if takeWhile is_digit ds = [] then None
                else Some ((if neg then - 1 else 1) * int (digits_value (takeWhile is_digit ds)),
                           dropWhile is_digit ds))
          else Some (0, s))"

definition parse_number :: "jsstring \<Rightarrow> (rat \<times> jsstring) option" where
  "parse_number s =
     (let neg = (take 1 s = [45]);
          s1 = (if neg then drop 1 s else s)
      in case parse_int_part s1 of
           None \<Rightarrow> None
         | Some (ip, s2) \<Rightarrow>
             (case parse_frac_part s2 of
                None \<Rightarrow> None
              | Some (fp, s3) \<Rightarrow>
                  (case parse_exp_part s3 of
                     None \<Rightarrow> None
                   | Some (ex, s4) \<Rightarrow>
                       Some ((if neg then - 1 else 1) *
                               scale10 (int (digits_value (ip @ fp))) (ex - int (length fp)),
                             s4))))"

text \<open>What follows the next token when it is the expected punctuation.\<close>

definition expect :: "code_unit \<Rightarrow> jsstring \<Rightarrow> jsstring option" where
  "expect c s = (case skip_ws s of [] \<Rightarrow> None | d # r \<Rightarrow> if d = c then Some r else None)"

text \<open>
  The parser proper. Each call spends one unit of fuel; \<open>parse_elements\<close> and
  \<open>parse_members\<close> start at the first token of an element or member and accumulate
  those already read.
\<close>

fun parse_value :: "nat \<Rightarrow> jsstring \<Rightarrow> parse_error + (json \<times> jsstring)"
  and parse_elements :: "nat \<Rightarrow> json list \<Rightarrow> jsstring \<Rightarrow> parse_error + (json \<times> jsstring)"
  and parse_members :: "nat \<Rightarrow> (jsstring \<times> json) list \<Rightarrow> jsstring \<Rightarrow> parse_error + (json \<times> jsstring)"
where
  "parse_value 0 s = Inl OutOfFuel"
| "parse_value (Suc n) [] = Inl SyntaxError"
| "parse_value (Suc n) (c # cs) =
     (if c = 123 then
        (case expect 125 cs of
           Some r \<Rightarrow> Inr (JObject [], r)
         | None \<Rightarrow> parse_members n [] (skip_ws cs))
      else if c = 91 then
        (case expect 93 cs of
           Some r \<Rightarrow> Inr (JArray [], r)
         | None \<Rightarrow> parse_elements n [] (skip_ws cs))
      else if c = 34 then
        (case parse_chars cs of
           Some (str, r) \<Rightarrow> Inr (JString str, r)
         | None \<Rightarrow> Inl SyntaxError)
      else if c = 45 \<or> is_digit c then
        (case parse_number (c # cs) of
           Some (x, r) \<Rightarrow> Inr (JNumber x, r)
         | None \<Rightarrow> Inl SyntaxError)
      else if startsWith (c # cs) (js ''true'') then Inr (JBool True, drop 4 (c # cs))
      else if startsWith (c # cs) (js ''false'') then Inr (JBool False, drop 5 (c # cs))
      else if startsWith (c # cs) (js ''null'') then Inr (JNull, drop 4 (c # cs))
      else Inl SyntaxError)"
| "parse_elements 0 acc s = Inl OutOfFuel"
| "parse_elements (Suc n) acc s =
     (case parse_value n s of
        Inl e \<Rightarrow> Inl e
      | Inr (v, r) \<Rightarrow>
          (case expect 44 r of
             Some r1 \<Rightarrow> parse_elements n (acc @ [v]) (skip_ws r1)
           | None \<Rightarrow>
               (case expect 93 r of
                  Some r2 \<Rightarrow> Inr (JArray (acc @ [v]), r2)
                | None \<Rightarrow> Inl SyntaxError)))"
| "parse_members 0 acc s = Inl OutOfFuel"
| "parse_members (Suc n) acc s =
     (if take 1 s = [34] then
        (case parse_chars (drop 1 s) of
           None \<Rightarrow> Inl SyntaxError
         | Some (k, r) \<Rightarrow>
             (case expect 58 r of
                None \<Rightarrow> Inl SyntaxError
              | Some r1 \<Rightarrow>
                  (case parse_value n (skip_ws r1) of
                     Inl e \<Rightarrow> Inl e
                   | Inr (v, r2) \<Rightarrow>
                       (case expect 44 r2 of
                          Some r3 \<Rightarrow> parse_members n (acc @ [(k, v)]) (skip_ws r3)
                        | None \<Rightarrow>
                            (case expect 125 r2 of
                               Some r4 \<Rightarrow> Inr (JObject (acc @ [(k, v)]), r4)
                             | None \<Rightarrow> Inl SyntaxError)))))
      else Inl SyntaxError)"

text \<open>
  \<open>JSON.parse(text)\<close>: one value, white space around it, nothing else. Twice the
  length of the text, plus one, is fuel enough for any text (\<open>JSON_parse_fuel\<close> below).
\<close>

definition JSON_parse :: "jsstring \<Rightarrow> parse_error + json" where
  "JSON_parse s =
     (case parse_value (Suc (length s + length s)) (skip_ws s) of
        Inl e \<Rightarrow> Inl e
      | Inr (v, r) \<Rightarrow> if skip_ws r = [] then Inr v else Inl SyntaxError)"

text \<open>Property access \<open>v.name\<close> on a parsed value: \<open>None\<close> is \<open>undefined\<close>.\<close>

fun lookup_last :: "(jsstring \<times> json) list \<Rightarrow> jsstring \<Rightarrow> json option" where
  "lookup_last [] k = None"
| "lookup_last ((k', v) # ms) k =
     (case lookup_last ms k of
        Some w \<Rightarrow> Some w
      | None \<Rightarrow> if k' = k then Some v else None)"

fun get_prop :: "json \<Rightarrow> jsstring \<Rightarrow> json option" where
  "get_prop (JObject ms) k = lookup_last ms k"
| "get_prop v k = None"

section \<open>The extraction procedures\<close>

text \<open>
  generate-course: trim, strip fences, cut to the braces, clean characters, repair,
  parse. generate-roadmap-content: the same without the repairs and with the shorter
  character cleaning. The lesson-recommendation and adaptive-feedback functions parse
  right after the cut to the braces.
\<close>

definition extract_course :: "jsstring \<Rightarrow> parse_error + json" where
  "extract_course content =
     JSON_parse (fix_common_issues (clean_characters (trim_to_braces (strip_fences (trim content)))))"



section \<open>Requests, the inference call, responses\<close>

text \<open>
  A handler receives the preflight request, a body that is not JSON, or a parsed body.
  A field of the body is absent or a string; absent and empty are the falsy cases of
  the handlers' checks. The environment variable is absent or a string.
\<close>

datatype 'a http_request = Preflight | BadBody jsstring | Body 'a

definition truthy_str :: "jsstring option \<Rightarrow> bool" where
  "truthy_str v = (case v of None \<Rightarrow> False | Some s \<Rightarrow> s \<noteq> [])"

text \<open>
  A thrown value: an \<open>Error\<close> the code constructs with its message, or an error of the
  runtime (a rejected \<open>fetch\<close>, a \<open>TypeError\<close> on a property of \<open>undefined\<close>, a
  \<open>SyntaxError\<close> of \<open>req.json()\<close>) with its name and the engine's message.
\<close>

datatype js_error = Error jsstring | RuntimeError jsstring jsstring

fun message :: "js_error \<Rightarrow> jsstring" where
  "message (Error m) = m"
| "message (RuntimeError name m) = m"

fun toString :: "js_error \<Rightarrow> jsstring" where
  "toString (Error m) = js ''Error: '' @ m"
| "toString (RuntimeError name m) = name @ js '': '' @ m"

text \<open>
  What the inference call gives: \<open>fetch\<close> rejects, or a response with its \<open>ok\<close> flag,
  status, body text (read on the error path) and its body: one \<open>groqResponse.json()\<close>
  rejects, one in which reading \<open>choices[0].message\<close> throws, or one with the text of
  \<open>choices[0].message.content\<close>.
\<close>

datatype groq_data = BodyNotJson js_error | NoMessage js_error | MessageContent jsstring

record groq_response =
  ok :: bool
  status :: nat
  error_text :: jsstring
  data :: groq_data

datatype groq_outcome = FetchRejected js_error | Responded groq_response

datatype response_body = PlainText jsstring | JsonBody json

record http_response =
  code :: nat
  body :: response_body

definition preflight_response :: http_response where
  "preflight_response = \<lparr>code = 200, body = PlainText (js ''ok'')\<rparr>"

text \<open>The outer \<open>catch\<close> of every handler: status 500, the message and its rendering.\<close>

definition error_response :: "js_error \<Rightarrow> http_response" where
  "error_response e =
     \<lparr>code = 500,
      body = JsonBody (JObject [(js ''error'', JString (message e)),
                                (js ''details'', JString (toString e))])\<rparr>"

text \<open>A number in a template literal: its decimal digits.\<close>

function show_nat :: "nat \<Rightarrow> jsstring" where
  "show_nat n = (if n < 10 then [48 + n] else show_nat (n div 10) @ [48 + n mod 10])"
  by pat_completeness auto
termination
  by (relation "measure id") auto

declare show_nat.simps [simp del]

definition missing_key_error :: js_error where
  "missing_key_error = Error (js ''GROQ_API_KEY environment variable is not configured'')"

section \<open>generate-course\<close>

text \<open>
  The prompts are built from the request and sent with the call; the response is an
  input of the model, so they are left out. The fallback course interpolates the
  course title.
\<close>

record course_request =
  title :: "jsstring option"
  audience_level :: "jsstring option"
  duration :: "jsstring option"
  instructions :: "jsstring option"

definition str_of :: "jsstring option \<Rightarrow> jsstring" where
  "str_of v = (case v of None \<Rightarrow> [] | Some s \<Rightarrow> s)"

definition fallback_module_1 :: "jsstring \<Rightarrow> json" where
  "fallback_module_1 t =
     JObject
       [(js ''module_title'', JString (js ''Fundamentals of '' @ t)),
        (js ''lessons'', JArray
         [JObject
           [(js ''lesson_title'', JString (js ''Introduction to '' @ t)),
            (js ''objectives'', JArray
             [JString (js ''Understand the core concepts of '' @ t),
              JString (js ''Learn fundamental principles and terminology''),
              JString (js ''Identify key components and their relationships''),
              JString (js ''Apply basic knowledge in practical scenarios'')]),
            (js ''content'', JString (js ''Welcome to your comprehensive '' @ t @ js '' course! This lesson introduces you to the fundamental concepts and principles that form the foundation of '' @ t @ js ''. We'' @ [39] @ js ''ll explore the essential terminology, key components, and basic principles that you'' @ [39] @ js ''ll build upon throughout this course. Understanding these fundamentals is crucial for your success in more advanced topics. Through practical examples and step-by-step explanations, you'' @ [39] @ js ''ll gain confidence and establish a solid foundation for your learning journey.'')),
            (js ''quiz'', JArray
             [JObject
               [(js ''question'', JString (js ''What is the primary focus of learning '' @ t @ js ''?'')),
                (js ''options'', JArray
                 [JString (js ''Basic understanding only''),
                  JString (js ''Practical application''),
                  JString (js ''Theoretical knowledge''),
                  JString (js ''All comprehensive aspects'')]),
                (js ''answer'', JString (js ''All comprehensive aspects''))],
              JObject
               [(js ''question'', JString (js ''Why is it important to understand fundamentals in '' @ t @ js ''?'')),
                (js ''options'', JArray
                 [JString (js ''It'' @ [39] @ js ''s not important''),
                  JString (js ''Builds foundation for advanced concepts''),
                  JString (js ''Just for beginners''),
                  JString (js ''Only for testing'')]),
                (js ''answer'', JString (js ''Builds foundation for advanced concepts''))]]),
            (js ''free_resources'', JArray
             [JObject
               [(js ''title'', JString (t @ js '' Complete Guide'')),
                (js ''url'', JString (js ''https://example.com/comprehensive-guide''))],
              JObject
               [(js ''title'', JString (t @ js '' Fundamentals Tutorial'')),
                (js ''url'', JString (js ''https://example.com/fundamentals''))]])]])]"

definition fallback_module_2 :: "jsstring \<Rightarrow> json" where
  "fallback_module_2 t =
     JObject
       [(js ''module_title'', JString (js ''Intermediate '' @ t @ js '' Concepts'')),
        (js ''lessons'', JArray
         [JObject
           [(js ''lesson_title'', JString (js ''Building Your '' @ t @ js '' Skills'')),
            (js ''objectives'', JArray
             [JString (js ''Develop intermediate-level competency''),
              JString (js ''Apply concepts in practical situations''),
              JString (js ''Solve common problems and challenges''),
              JString (js ''Prepare for advanced topic areas'')]),
            (js ''content'', JString (js ''Now that you have a solid foundation, this lesson focuses on building your intermediate skills in '' @ t @ js ''. We'' @ [39] @ js ''ll explore more complex concepts, practical applications, and real-world scenarios. You'' @ [39] @ js ''ll learn to solve common problems, implement best practices, and develop the confidence to tackle more challenging aspects of '' @ t @ js ''. This lesson bridges the gap between basic understanding and advanced mastery.'')),
            (js ''quiz'', JArray
             [JObject
               [(js ''question'', JString (js ''What characterizes intermediate-level '' @ t @ js '' skills?'')),
                (js ''options'', JArray
                 [JString (js ''Basic knowledge only''),
                  JString (js ''Practical problem-solving ability''),
                  JString (js ''Advanced theory''),
                  JString (js ''Expert-level mastery'')]),
                (js ''answer'', JString (js ''Practical problem-solving ability''))],
              JObject
               [(js ''question'', JString (js ''How do intermediate skills prepare you for advanced topics?'')),
                (js ''options'', JArray
                 [JString (js ''They don'' @ [39] @ js ''t''),
                  JString (js ''Build confidence and practical experience''),
                  JString (js ''Only theoretical knowledge''),
                  JString (js ''Replace advanced learning'')]),
                (js ''answer'', JString (js ''Build confidence and practical experience''))]]),
            (js ''free_resources'', JArray
             [JObject
               [(js ''title'', JString (t @ js '' Practical Examples'')),
                (js ''url'', JString (js ''https://example.com/practical-examples''))],
              JObject
               [(js ''title'', JString (t @ js '' Problem Solving Guide'')),
                (js ''url'', JString (js ''https://example.com/problem-solving''))]])]])]"

definition fallback_course :: "jsstring \<Rightarrow> json" where
  "fallback_course t = JObject [(js ''modules'', JArray [fallback_module_1 t, fallback_module_2 t])]"

text \<open>
  \<open>!courseContent.modules || !Array.isArray(courseContent.modules)\<close> throws inside the
  inner \<open>try\<close>; so does the property access when the parsed value is \<open>null\<close>.
\<close>

definition has_modules_array :: "json \<Rightarrow> bool" where
  "has_modules_array v = (case get_prop v (js ''modules'') of Some (JArray ms) \<Rightarrow> True | _ \<Rightarrow> False)"

text \<open>The inner \<open>try\<close>/\<open>catch\<close>: the parsed course, or the fallback on any exception.\<close>

definition course_content :: "jsstring \<Rightarrow> jsstring \<Rightarrow> json" where
  "course_content courseTitle content =
     (case extract_course content of
        Inl e \<Rightarrow> fallback_course courseTitle
      | Inr v \<Rightarrow> if has_modules_array v then v else fallback_course courseTitle)"

definition course_success :: "json \<Rightarrow> http_response" where
  "course_success courseContent =
     \<lparr>code = 200,
      body = JsonBody (JObject [(js ''success'', JBool True), (js ''courseContent'', courseContent)])\<rparr>"

definition groq_status_error :: "groq_response \<Rightarrow> js_error" where
  "groq_status_error g =
     Error (js ''Groq API error: '' @ show_nat (status g) @ js '' - '' @ error_text g)"

text \<open>
  The handler. With a body in which \<open>choices[0].message\<close> cannot be read, the inner
  \<open>catch\<close> reads the same path again for its log and throws to the outer \<open>catch\<close>.
\<close>

definition generate_course ::
  "course_request http_request \<Rightarrow> jsstring option \<Rightarrow> groq_outcome \<Rightarrow> http_response" where
  "generate_course req groqApiKey groq =
     (case req of
        Preflight \<Rightarrow> preflight_response
      | BadBody m \<Rightarrow> error_response (RuntimeError (js ''SyntaxError'') m)
      | Body b \<Rightarrow>
          if \<not> truthy_str (title b) \<or> \<not> truthy_str (audience_level b) \<or> \<not> truthy_str (duration b)
          then error_response
                 (Error (js ''Missing required fields: courseTitle, audienceLevel, and duration are required''))
          else if \<not> truthy_str groqApiKey then error_response missing_key_error
          else
            (case groq of
               FetchRejected e \<Rightarrow> error_response e
             | Responded g \<Rightarrow>
                 if \<not> ok g then error_response (groq_status_error g)
                 else
                   (case data g of
                      BodyNotJson e \<Rightarrow> error_response e
                    | NoMessage e \<Rightarrow> error_response e
                    | MessageContent content \<Rightarrow>
                        course_success (course_content (str_of (title b)) content))))"

text \<open>
  The shape the specification asks of the fallback: some module with some lesson that has
  objectives, content, exactly two quiz questions and exactly two resources.
\<close>

definition array_length :: "json option \<Rightarrow> nat option" where
  "array_length v = (case v of Some (JArray xs) \<Rightarrow> Some (length xs) | _ \<Rightarrow> None)"

definition nonempty_string :: "json option \<Rightarrow> bool" where
  "nonempty_string v = (case v of Some (JString s) \<Rightarrow> s \<noteq> [] | _ \<Rightarrow> False)"

definition complete_lesson :: "json \<Rightarrow> bool" where
  "complete_lesson l \<longleftrightarrow>
     (case array_length (get_prop l (js ''objectives'')) of Some n \<Rightarrow> 0 < n | None \<Rightarrow> False) \<and>
     nonempty_string (get_prop l (js ''content'')) \<and>
     array_length (get_prop l (js ''quiz'')) = Some 2 \<and>
     array_length (get_prop l (js ''free_resources'')) = Some 2"

definition has_complete_lesson :: "json \<Rightarrow> bool" where
  "has_complete_lesson m =
     (case get_prop m (js ''lessons'') of Some (JArray ls) \<Rightarrow> list_ex complete_lesson ls | _ \<Rightarrow> False)"

definition usable_course :: "json \<Rightarrow> bool" where
  "usable_course c =
     (case get_prop c (js ''modules'') of Some (JArray ms) \<Rightarrow> list_ex has_complete_lesson ms | _ \<Rightarrow> False)"

text \<open>The extraction gave a value with a top-level modules array.\<close>

definition parsed_with_modules :: "parse_error + json \<Rightarrow> bool" where
  "parsed_with_modules r = (case r of Inl e \<Rightarrow> False | Inr v \<Rightarrow> has_modules_array v)"

section \<open>Inputs without noise\<close>






section \<open>The quiz answer validator of the client\<close>

text \<open>
  \<open>supabase.functions.invoke\<close> throws, or returns \<open>data\<close> (absent when null) and
  \<open>error\<close>. \<open>toLowerCase\<close> is the platform's; the validator takes it as a parameter.
  A value is used as a condition through its truthiness.
\<close>

datatype invoke_outcome = InvokeThrows js_error | InvokeReturns "json option" "js_error option"

fun truthy :: "json \<Rightarrow> bool" where
  "truthy JNull = False"
| "truthy (JBool b) = b"
| "truthy (JNumber x) = (x \<noteq> 0)"
| "truthy (JString s) = (s \<noteq> [])"
| "truthy (JArray xs) = True"
| "truthy (JObject ms) = True"

text \<open>\<open>data?.isCorrect || false\<close>, read as a condition.\<close>

definition is_correct_of :: "json option \<Rightarrow> bool" where
  "is_correct_of d =
     (case d of
        None \<Rightarrow> False
      | Some v \<Rightarrow> (case get_prop v (js ''isCorrect'') of None \<Rightarrow> False | Some b \<Rightarrow> truthy b))"

definition validateAnswerWithAI ::
  "(jsstring \<Rightarrow> jsstring) \<Rightarrow> jsstring \<Rightarrow> jsstring \<Rightarrow> jsstring \<Rightarrow> invoke_outcome \<Rightarrow> bool" where
  "validateAnswerWithAI toLowerCase userAnswer question correctAnswer invoked =
     (if userAnswer = [] \<or> question = [] \<or> correctAnswer = []
      then toLowerCase (trim userAnswer) = toLowerCase (trim correctAnswer)
      else
        (case invoked of
           InvokeThrows e \<Rightarrow> toLowerCase (trim userAnswer) = toLowerCase (trim correctAnswer)
         | InvokeReturns d err \<Rightarrow>
             (case err of
                Some e \<Rightarrow> toLowerCase (trim userAnswer) = toLowerCase (trim correctAnswer)
              | None \<Rightarrow> is_correct_of d)))"

text \<open>The AI validation cannot be used: an empty argument, an error returned, a throw.\<close>

definition ai_unusable :: "jsstring \<Rightarrow> jsstring \<Rightarrow> jsstring \<Rightarrow> invoke_outcome \<Rightarrow> bool" where
  "ai_unusable userAnswer question correctAnswer invoked =
     (userAnswer = [] \<or> question = [] \<or> correctAnswer = [] \<or>
      (case invoked of InvokeThrows e \<Rightarrow> True | InvokeReturns d err \<Rightarrow> err \<noteq> None))"

text \<open>Lower case of the ASCII letters, for examples.\<close>

definition ascii_lower :: "jsstring \<Rightarrow> jsstring" where
  "ascii_lower s = map (\<lambda>c. if 65 \<le> c \<and> c \<le> 90 then c + 32 else c) s"

section \<open>The datastore\<close>

text \<open>
  The tables the course hooks use, as lists of rows in insertion order. Identifiers are
  generated by the datastore; \<open>next_id\<close> is the next one. The datastore answers a
  request with an error or carries it out; which requests it refuses is a parameter
  (\<open>refused\<close>), and a refused request changes nothing. The requests issued are logged.
\<close>

type_synonym ident = nat

record course_row =
  course_id :: ident
  course_user :: ident
  course_title :: jsstring
  course_progress :: "int option"
  course_created_at :: nat

record module_row =
  module_id :: ident
  module_course :: ident
  module_title :: jsstring
  module_order :: nat

record lesson_row =
  lesson_id :: ident
  lesson_module :: ident
  lesson_title :: jsstring
  lesson_order :: nat
  lesson_objectives :: "jsstring list"
  lesson_content :: jsstring
  lesson_completed :: bool

record quiz_row =
  question_id :: ident
  question_lesson :: ident
  question_text :: jsstring
  question_options :: "jsstring list"
  correct_answer :: jsstring
  question_order :: nat

record resource_row =
  resource_id :: ident
  resource_lesson :: ident
  resource_title :: jsstring
  resource_url :: jsstring
  resource_order :: nat

record score_row =
  score_id :: ident
  score_course :: ident
  score_lesson :: ident

record database =
  db_courses :: "course_row list"
  db_modules :: "module_row list"
  db_lessons :: "lesson_row list"
  db_questions :: "quiz_row list"
  db_resources :: "resource_row list"
  db_scores :: "score_row list"
  next_id :: ident

datatype request =
    SelectCourses ident
  | SelectModules ident
  | SelectLessons ident
  | SelectQuestions ident
  | SelectResources ident
  | UpdateProgress ident int
  | InsertCourse ident jsstring
  | InsertModule ident nat
  | InsertLesson ident nat
  | InsertQuestion ident nat
  | InsertResource ident nat
  | DeleteQuizScores ident
  | DeleteCourse ident

type_synonym refusals = "request \<Rightarrow> js_error option"

record world =
  store :: database
  issued :: "request list"

definition issue :: "request \<Rightarrow> world \<Rightarrow> world" where
  "issue r w = w\<lparr>issued := issued w @ [r]\<rparr>"

text \<open>What the client shows: the courses as fetched, and the notifications raised.\<close>

record lesson_view =
  lesson_data :: lesson_row
  lesson_quiz :: "quiz_row list"
  lesson_resources :: "resource_row list"

record module_view =
  module_data :: module_row
  module_lessons :: "lesson_view list"




subsection \<open>\<open>deleteCourse\<close>\<close>





subsection \<open>Double-precision arithmetic of the progress computation\<close>

text \<open>
  \<open>(completedLessons / totalLessons) * 100\<close> is computed in IEEE 754 binary64: the
  quotient is rounded to the nearest double (ties to even), and so is its product with
  100. A double in the range used here, from 0 to below \<open>2^53\<close>, is a 53-bit mantissa
  over a power of two: \<open>mantissa / 2 ^ exponent\<close>, with the exponent at most 1074.
  \<open>nearest_double p q\<close> is the double nearest to the fraction \<open>p / q\<close> for \<open>p / q < 2^53\<close>:
  the exponent is the least \<open>k\<close> with \<open>2^52 \<le> (p / q) * 2^k\<close>, capped at 1074.
\<close>

record double =
  mantissa :: nat
  exponent :: nat

fun scale_exp :: "nat \<Rightarrow> nat \<Rightarrow> nat \<Rightarrow> nat \<Rightarrow> nat" where
  "scale_exp 0 p q k = k"
| "scale_exp (Suc fuel) p q k =
     (if 2 ^ 52 * q \<le> p * 2 ^ k then k else scale_exp fuel p q (k + 1))"

text \<open>The integer nearest to \<open>n / d\<close>, a tie going to the even one.\<close>

definition round_half_even :: "nat \<Rightarrow> nat \<Rightarrow> nat" where
  "round_half_even n d =
     (let f = n div d; r = n mod d
      in if 2 * r < d then f
         else if d < 2 * r then f + 1
         else if even f then f else f + 1)"

definition nearest_double :: "nat \<Rightarrow> nat \<Rightarrow> double" where
  "nearest_double p q =
     (let k = scale_exp 1074 p q 0
      in \<lparr>mantissa = round_half_even (p * 2 ^ k) q, exponent = k\<rparr>)"

text \<open>Division of two integers that are doubles; product of a double and an integer.\<close>

definition double_div :: "nat \<Rightarrow> nat \<Rightarrow> double" where
  "double_div a b = nearest_double a b"

definition double_mul :: "double \<Rightarrow> nat \<Rightarrow> double" where
  "double_mul x n = nearest_double (mantissa x * n) (2 ^ exponent x)"

text \<open>
  \<open>Math.round\<close>: the integer nearest to the argument, a tie going up; exact.
\<close>

definition Math_round :: "double \<Rightarrow> nat" where
  "Math_round x = (2 * mantissa x + 2 ^ exponent x) div (2 * 2 ^ exponent x)"

subsection \<open>\<open>calculateCourseProgress\<close> and \<open>fetchCourses\<close>\<close>

definition calculateCourseProgress :: "module_view list \<Rightarrow> nat" where
  "calculateCourseProgress mods =
     (if mods = [] then 0
      else
        (let totalLessons = foldl (\<lambda>total m. total + length (module_lessons m)) 0 mods
         in if totalLessons = 0 then 0
            else
              (let completedLessons =
                     foldl (\<lambda>total m. total +
                              length (filter (\<lambda>l. lesson_completed (lesson_data l)) (module_lessons m)))
                       0 mods
               in Math_round (double_mul (double_div completedLessons totalLessons) 100))))"

text \<open>
  The percentage the specification names: \<open>100 * completed / total\<close> rounded to the
  nearest integer, a half going up.
\<close>

definition rounded_percentage :: "nat \<Rightarrow> nat \<Rightarrow> nat" where
  "rounded_percentage completedLessons totalLessons =
     (200 * completedLessons + totalLessons) div (2 * totalLessons)"

text \<open>
  The reads of \<open>fetchCourses\<close>. An error of the questions or resources query is
  ignored (\<open>data || []\<close>); an error of the lessons, modules or courses query is thrown.
  \<open>order(column)\<close> is a stable sort by the column.
\<close>










text \<open>
  One course of \<open>fetchCourses\<close>: its modules, its progress, and the write-back, issued
  only when the progress computed is not the one stored.
\<close>

definition set_progress :: "ident \<Rightarrow> int \<Rightarrow> database \<Rightarrow> database" where
  "set_progress cid p d =
     d\<lparr>db_courses := map (\<lambda>c. if course_id c = cid then c\<lparr>course_progress := Some p\<rparr> else c)
                         (db_courses d)\<rparr>"

definition write_back :: "refusals \<Rightarrow> course_row \<Rightarrow> int \<Rightarrow> world \<Rightarrow> world" where
  "write_back refused c p w =
     (if Some p \<noteq> course_progress c then
        (let w1 = issue (UpdateProgress (course_id c) p) w
         in case refused (UpdateProgress (course_id c) p) of
              Some e \<Rightarrow> w1
            | None \<Rightarrow> w1\<lparr>store := set_progress (course_id c) p (store w1)\<rparr>)
      else w)"




subsection \<open>\<open>createCourse\<close>\<close>



























section \<open>generate-roadmap-content\<close>








section \<open>validate-quiz-answer\<close>



section \<open>ai-tutor-chat\<close>



section \<open>generate-adaptive-feedback\<close>

text \<open>
  The handler checks no field either, but joins the two topic lists into the prompt, and
  \<open>join\<close> on an absent list throws a \<open>TypeError\<close> (with the engine's message). The
  rule-based feedback of the inner \<open>catch\<close> is a parameter here.
\<close>

record feedback_request =
  feedback_quiz_score :: "rat option"
  feedback_confidence_level :: "rat option"
  feedback_struggle_topics :: "jsstring list option"
  feedback_understanding_topics :: "jsstring list option"



section \<open>generate-lesson-recommendations\<close>
























section \<open>What the claims say of responses and recommendations\<close>







section \<open>Example data\<close>







text \<open>One module of forty lessons, the first twenty-three of them completed.\<close>

definition example_lesson :: "bool \<Rightarrow> lesson_view" where
  "example_lesson done =
     \<lparr>lesson_data =
        \<lparr>lesson_id = 0, lesson_module = 2, lesson_title = [], lesson_order = 1,
         lesson_objectives = [], lesson_content = [], lesson_completed = done\<rparr>,
      lesson_quiz = [], lesson_resources = []\<rparr>"

definition forty_lessons :: "module_view list" where
  "forty_lessons =
     [\<lparr>module_data = \<lparr>module_id = 2, module_course = 1, module_title = [], module_order = 1\<rparr>,
       module_lessons = replicate 23 (example_lesson True) @ replicate 17 (example_lesson False)\<rparr>]"




section \<open>The parser never runs out of fuel\<close>

lemma skip_ws_length: "length (skip_ws s) \<le> length s"
  by (simp add: skip_ws_def length_dropWhile_le)

lemma expect_length: "expect c s = Some r \<Longrightarrow> length r < length s"
proof -
  assume a: "expect c s = Some r"
  then obtain d where "skip_ws s = d # r"
    by (auto simp: expect_def split: list.splits if_splits)
  then have "length r < length (skip_ws s)" by simp
  then show ?thesis using skip_ws_length[of s] by linarith
qed

lemma parse_chars_length: "parse_chars s = Some (str, r) \<Longrightarrow> length r < length s"
proof (induction s arbitrary: str r rule: parse_chars.induct)
  case 1
  then show ?case by simp
next
  case (2 c)
  then show ?case by (simp split: if_splits)
next
  case (3 c e es)
  then show ?case
    by (fastforce simp: cons_char_def split: if_splits list.splits option.splits)
qed

lemma parse_int_part_length: "parse_int_part s = Some (ip, r) \<Longrightarrow> length r < length s"
  by (auto simp: parse_int_part_def split: list.splits if_splits)
     (metis length_dropWhile_le le_imp_less_Suc)

lemma parse_frac_part_length: "parse_frac_part s = Some (fp, r) \<Longrightarrow> length r \<le> length s"
  by (auto simp: parse_frac_part_def length_dropWhile_le le_SucI split: list.splits if_splits)

lemma parse_exp_part_length: "parse_exp_part s = Some (ex, r) \<Longrightarrow> length r \<le> length s"
proof -
  assume a: "parse_exp_part s = Some (ex, r)"
  have d: "length (dropWhile is_digit (drop k cs)) \<le> length cs" for k and cs :: jsstring
  proof -
    have "length (dropWhile is_digit (drop k cs)) \<le> length (drop k cs)"
      by (rule length_dropWhile_le)
    then show ?thesis by simp
  qed
  show ?thesis
    using a d[of 1] d[of 0]
    by (auto simp: parse_exp_part_def Let_def le_SucI split: list.splits if_splits)
qed

lemma parse_number_length: "parse_number s = Some (x, r) \<Longrightarrow> length r < length s"
proof -
  assume a: "parse_number s = Some (x, r)"
  let ?s1 = "if take 1 s = [45] then drop 1 s else s"
  from a obtain ip s2 fp s3 ex where
    i: "parse_int_part ?s1 = Some (ip, s2)" and f: "parse_frac_part s2 = Some (fp, s3)"
    and e: "parse_exp_part s3 = Some (ex, r)"
    by (auto simp: parse_number_def Let_def split: option.splits if_splits)
  have "length ?s1 \<le> length s" by simp
  then show ?thesis
    using parse_int_part_length[OF i] parse_frac_part_length[OF f] parse_exp_part_length[OF e]
    by linarith
qed


lemma parse_fuel:
  "(2 * length s < n \<longrightarrow> parse_value n s \<noteq> Inl OutOfFuel) \<and>
   (\<forall>v r. parse_value n s = Inr (v, r) \<longrightarrow> length r < length s)"
  "(2 * length s + 1 < n \<longrightarrow> parse_elements n acc s \<noteq> Inl OutOfFuel) \<and>
   (\<forall>v r. parse_elements n acc s = Inr (v, r) \<longrightarrow> length r < length s)"
  "(2 * length s + 1 < n \<longrightarrow> parse_members n macc s \<noteq> Inl OutOfFuel) \<and>
   (\<forall>v r. parse_members n macc s = Inr (v, r) \<longrightarrow> length r < length s)"
proof (induction n s and n acc s and n macc s rule: parse_value_parse_elements_parse_members.induct)
  case (1 s)
  then show ?case by simp
next
  case (2 n)
  then show ?case by simp
next
  case (3 n c cs)
  note ws = skip_ws_length[of cs]
  show ?case
  proof (intro conjI impI allI)
    assume "2 * length (c # cs) < Suc n"
    then show "parse_value (Suc n) (c # cs) \<noteq> Inl OutOfFuel"
      using 3 ws by (auto split: option.splits)
  next
    fix v r
    assume "parse_value (Suc n) (c # cs) = Inr (v, r)"
    then show "length r < length (c # cs)"
      using 3 ws
      by (auto split: option.splits if_splits
               dest!: expect_length parse_chars_length parse_number_length)
  qed
next
  case (4 acc s)
  then show ?case by simp
next
  case (5 n acc s)
  show ?case
  proof (cases "parse_value n s")
    case (Inl e)
    then show ?thesis using 5(1) by auto
  next
    case (Inr p)
    obtain v r where p: "p = (v, r)" by (cases p)
    have r: "length r < length s" using 5(1) Inr p by simp
    show ?thesis
    proof (cases "expect 44 r")
      case None
      then show ?thesis
        using Inr p r by (auto split: option.splits dest!: expect_length)
    next
      case (Some r1)
      have "length (skip_ws r1) < length s"
        using expect_length[OF Some] skip_ws_length[of r1] r by linarith
      then show ?thesis
        using Inr p Some 5(2)[OF Inr p[symmetric] Some] by auto
    qed
  qed
next
  case (6 acc s)
  then show ?case by simp
next
  case (7 n acc s)
  show ?case
  proof (cases "take 1 s = [34]")
    case False
    then show ?thesis by simp
  next
    case q: True
    then have ds: "length (drop 1 s) < length s" by (cases s) auto
    show ?thesis
    proof (cases "parse_chars (drop 1 s)")
      case None
      then show ?thesis using q by simp
    next
      case (Some kr)
      obtain k r where kr: "kr = (k, r)" by (cases kr)
      have r: "length r < length s"
        using parse_chars_length[of "drop 1 s" k r] Some kr ds by simp
      show ?thesis
      proof (cases "expect 58 r")
        case None
        then show ?thesis using q Some kr by simp
      next
        case c: (Some r1)
        have r1: "length (skip_ws r1) < length s"
          using expect_length[OF c] skip_ws_length[of r1] r by linarith
        note ihv = 7(1)[OF q Some kr[symmetric] c]
        show ?thesis
        proof (cases "parse_value n (skip_ws r1)")
          case (Inl e)
          then show ?thesis using q Some kr c ihv r1 by auto
        next
          case (Inr p)
          obtain v r2 where p: "p = (v, r2)" by (cases p)
          have r2: "length r2 < length s" using ihv Inr p r1 by simp
          show ?thesis
          proof (cases "expect 44 r2")
            case None
            then show ?thesis
              using q Some kr c Inr p r2 by (auto split: option.splits dest!: expect_length)
          next
            case e: (Some r3)
            have "length (skip_ws r3) < length s"
              using expect_length[OF e] skip_ws_length[of r3] r2 by linarith
            then show ?thesis
              using q Some kr c Inr p e 7(2)[OF q Some kr[symmetric] c Inr p[symmetric] e] by auto
          qed
        qed
      qed
    qed
  qed
qed


lemma JSON_parse_fuel: "JSON_parse s \<noteq> Inl OutOfFuel"
proof -
  have "2 * length (skip_ws s) < Suc (length s + length s)"
    using skip_ws_length[of s] by linarith
  then have "parse_value (Suc (length s + length s)) (skip_ws s) \<noteq> Inl OutOfFuel"
    using parse_fuel(1) by blast
  then show ?thesis
    by (auto simp: JSON_parse_def split: sum.splits)
qed

section \<open>Facts about the replacements\<close>












section \<open>Texts the cleaning leaves alone\<close>









section \<open>The extraction on particular texts\<close>

lemmas cut_defs = trim_def is_space_def strip_fences_def strip_prefix_ws_def
  strip_closing_fence_def startsWith_def endsWith_def trim_to_braces_def lastIndexOf_def
  substring_from_def substring_to_def js_def

lemmas clean_defs = clean_characters_def clean_special_characters_def replace_class_def
  is_control_def is_smart_double_def is_smart_single_def is_smart_dash_def is_japanese_def
  is_non_ascii_def js_def

lemmas fix_defs = fix_common_issues_def replace_all_def m_trailing_comma_def
  m_missing_comma_def m_unescaped_quotes_def after_spaces_def up_to_quote_def
  plain_group_def is_space_def js_def

lemmas parse_defs = JSON_parse_def skip_ws_def json_ws_def expect_def parse_number_def
  parse_int_part_def parse_frac_part_def parse_exp_part_def is_digit_def digits_value_def
  scale10_def cons_char_def escape_char_def hex4_def hex_val_def startsWith_def js_def





lemma quotes_cut:
  \<open>trim_to_braces (strip_fences (trim (js ''{"title": "He said '' @ [0x201C] @ js ''hi'' @ [0x201D] @ js ''"}'')))
     = js ''{"title": "He said '' @ [0x201C] @ js ''hi'' @ [0x201D] @ js ''"}''\<close>
  by (simp add: cut_defs)

lemma quotes_clean:
  \<open>clean_characters (js ''{"title": "He said '' @ [0x201C] @ js ''hi'' @ [0x201D] @ js ''"}'')
     = js ''{"title": "He said "hi""}''\<close>
  by (simp add: clean_defs)

lemma quotes_fix:
  \<open>fix_common_issues (js ''{"title": "He said "hi""}'') = js ''{"title": "He said "hi""}''\<close>
  by (simp add: fix_defs)

lemma quotes_parse:
  \<open>JSON_parse (js ''{"title": "He said "hi""}'') = Inl SyntaxError\<close>
  by (simp add: parse_defs)

lemma not_json: \<open>extract_course (js ''not json'') = Inl SyntaxError\<close>
proof -
  have \<open>trim_to_braces (strip_fences (trim (js ''not json''))) = js ''not json''\<close>
    by (simp add: cut_defs)
  moreover have \<open>clean_characters (js ''not json'') = js ''not json''\<close>
    by (simp add: clean_defs)
  moreover have \<open>fix_common_issues (js ''not json'') = js ''not json''\<close>
    by (simp add: fix_defs)
  moreover have \<open>JSON_parse (js ''not json'') = Inl SyntaxError\<close>
    by (simp add: parse_defs)
  ultimately show ?thesis by (simp only: extract_course_def)
qed


lemma fallback_course_usable: "usable_course (fallback_course t)"
  by (simp add: usable_course_def fallback_course_def has_complete_lesson_def fallback_module_1_def
     complete_lesson_def array_length_def nonempty_string_def js_def)

section \<open>Inserting and fetching a course\<close>


































section \<open>Facts about the progress computation\<close>

lemma scale_exp_numeral:
  "scale_exp (numeral n) p q k =
     (if 2 ^ 52 * q \<le> p * 2 ^ k then k else scale_exp (pred_numeral n) p q (k + 1))"
proof -
  have n: "numeral n = Suc (pred_numeral n)" by (rule numeral_eq_Suc)
  show ?thesis by (simp only: n scale_exp.simps)
qed

lemma double_div_23_40: "double_div 23 40 = \<lparr>mantissa = 5179139571476070, exponent = 53\<rparr>"
proof -
  have k: "scale_exp 1074 23 40 0 = 53"
    by (simp add: scale_exp_numeral)
  have m: "round_half_even (23 * 2 ^ 53) 40 = 5179139571476070"
    by (simp add: round_half_even_def Let_def)
  show ?thesis
    by (simp only: double_div_def nearest_double_def Let_def k m)
qed

lemma double_mul_100:
  "double_mul \<lparr>mantissa = 5179139571476070, exponent = 53\<rparr> 100 =
     \<lparr>mantissa = 8092405580431359, exponent = 47\<rparr>"
proof -
  have k: "scale_exp 1074 (5179139571476070 * 100) (2 ^ 53) 0 = 47"
    by (simp add: scale_exp_numeral)
  have m: "round_half_even (5179139571476070 * 100 * 2 ^ 47) (2 ^ 53) = 8092405580431359"
    by (simp add: round_half_even_def Let_def)
  show ?thesis
    by (simp only: double_mul_def nearest_double_def Let_def double.select_convs k m)
qed

lemma Math_round_57: "Math_round \<lparr>mantissa = 8092405580431359, exponent = 47\<rparr> = 57"
  by (simp add: Math_round_def)

lemma no_lessons_no_progress:
  "list_all (\<lambda>m. module_lessons m = []) mods \<Longrightarrow> calculateCourseProgress mods = 0"
proof -
  assume a: "list_all (\<lambda>m. module_lessons m = []) mods"
  have "foldl (\<lambda>total m. total + length (module_lessons m)) k mods = k" for k
    using a by (induction mods arbitrary: k) auto
  then show ?thesis by (simp add: calculateCourseProgress_def)
qed

lemma write_back_only_on_change:
  "Some p = course_progress c \<Longrightarrow> write_back refused c p w = w"
  "Some p \<noteq> course_progress c \<Longrightarrow>
     issued (write_back refused c p w) = issued w @ [UpdateProgress (course_id c) p]"
  by (auto simp: write_back_def issue_def Let_def split: option.splits)

section \<open>Facts about the handlers and the recommendations\<close>





















section \<open>Claims about the extraction and generate-course\<close>

text \<open>
  Claim C1. In generate-course, when the request has its three required fields, the key
  is set, the inference call answers with a success status and a message text, and that
  text does not extract to a value with a top-level modules array, the handler answers
  200 with \<open>success: true\<close> and the fallback course for the title; and the fallback
  course, for every title, has a module with a lesson that has objectives, content,
  exactly two quiz questions and exactly two resources.
\<close>

theorem fallback_on_unparsable_course:
  assumes "title b = Some t" and "t \<noteq> []"
    and "truthy_str (audience_level b)" and "truthy_str (duration b)"
    and "truthy_str groqApiKey"
    and "ok g" and "data g = MessageContent content"
    and "\<not> parsed_with_modules (extract_course content)"
  shows "generate_course (Body b) groqApiKey (Responded g) =
           \<lparr>code = 200,
            body = JsonBody (JObject [(js ''success'', JBool True),
                                      (js ''courseContent'', fallback_course t)])\<rparr>
         \<and> usable_course (fallback_course t)"
proof -
  have "course_content t content = fallback_course t"
    using assms(8) by (auto simp: course_content_def parsed_with_modules_def split: sum.splits)
  then have "generate_course (Body b) groqApiKey (Responded g) = course_success (fallback_course t)"
    using assms(1-7) by (simp add: generate_course_def truthy_str_def str_of_def)
  then show ?thesis
    using fallback_course_usable by (simp add: course_success_def)
qed

theorem fallback_on_unparsable_course_witness:
  "generate_course
     (Body \<lparr>title = Some (js ''Algebra''), audience_level = Some (js ''beginner''),
            duration = Some (js ''1-2 hours''), instructions = None\<rparr>)
     (Some (js ''key''))
     (Responded \<lparr>ok = True, status = 200, error_text = [], data = MessageContent (js ''not json'')\<rparr>) =
     \<lparr>code = 200,
      body = JsonBody (JObject [(js ''success'', JBool True),
                                (js ''courseContent'', fallback_course (js ''Algebra''))])\<rparr>
   \<and> usable_course (fallback_course (js ''Algebra''))"
proof -
  have "\<not> parsed_with_modules (extract_course (js ''not json''))"
    by (simp add: not_json parsed_with_modules_def)
  then show ?thesis
    using fallback_on_unparsable_course
      [of "\<lparr>title = Some (js ''Algebra''), audience_level = Some (js ''beginner''),
            duration = Some (js ''1-2 hours''), instructions = None\<rparr>"
          "js ''Algebra''" "Some (js ''key'')"
          "\<lparr>ok = True, status = 200, error_text = [], data = MessageContent (js ''not json'')\<rparr>"
          "js ''not json''"]
    by (simp add: truthy_str_def js_def)
qed




text \<open>
  Claim C3, at its concrete input. The typographic quotes around \<open>hi\<close> become plain
  double quotes inside the string value; the expression that escapes stray quotes only
  matches before a colon, so it leaves them, and the repaired text is not JSON: the
  extraction fails with a syntax error instead of recovering the title.
\<close>

theorem smart_quotes_not_recovered:
  \<open>clean_characters (js ''{"title": "He said '' @ [0x201C] @ js ''hi'' @ [0x201D] @ js ''"}'') =
     js ''{"title": "He said "hi""}'' \<and>
   fix_common_issues (js ''{"title": "He said "hi""}'') = js ''{"title": "He said "hi""}'' \<and>
   extract_course (js ''{"title": "He said '' @ [0x201C] @ js ''hi'' @ [0x201D] @ js ''"}'') =
     Inl SyntaxError\<close>
proof -
  have \<open>extract_course (js ''{"title": "He said '' @ [0x201C] @ js ''hi'' @ [0x201D] @ js ''"}'') =
     Inl SyntaxError\<close>
    by (simp only: extract_course_def quotes_cut quotes_clean quotes_fix quotes_parse)
  then show ?thesis
    using quotes_clean quotes_fix by blast
qed



section \<open>Claims about the client\<close>

text \<open>
  Claim C9. When the AI validation cannot be used, because the answer, the question or
  the correct answer is empty, or because the invocation returns an error or throws,
  \<open>validateAnswerWithAI\<close> returns the comparison of the answer and the correct answer,
  each trimmed and lower-cased.
\<close>

theorem validator_falls_back_to_comparison:
  assumes "ai_unusable userAnswer question correctAnswer invoked"
  shows "validateAnswerWithAI toLowerCase userAnswer question correctAnswer invoked =
           (toLowerCase (trim userAnswer) = toLowerCase (trim correctAnswer))"
  using assms
  by (auto simp: ai_unusable_def validateAnswerWithAI_def split: invoke_outcome.splits option.splits)

theorem validator_falls_back_to_comparison_witness:
  "validateAnswerWithAI ascii_lower (js '' Paris '') (js ''Capital of France?'') (js ''paris'')
     (InvokeReturns None (Some (Error (js ''Edge Function returned a non-2xx status code''))))"
proof -
  have "ai_unusable (js '' Paris '') (js ''Capital of France?'') (js ''paris'')
     (InvokeReturns None (Some (Error (js ''Edge Function returned a non-2xx status code''))))"
    by (simp add: ai_unusable_def)
  moreover have "ascii_lower (trim (js '' Paris '')) = ascii_lower (trim (js ''paris''))"
    by (simp add: ascii_lower_def trim_def js_def is_space_def)
  ultimately show ?thesis
    using validator_falls_back_to_comparison
      [of "js '' Paris ''" "js ''Capital of France?''" "js ''paris''"
          "InvokeReturns None (Some (Error (js ''Edge Function returned a non-2xx status code'')))"
          ascii_lower]
    by simp
qed



text \<open>
  Claim C7, at a course of forty lessons with twenty-three completed. The quotient
  23/40 and its product with 100 are rounded to doubles, and the product is the double
  just below 57.5: \<open>calculateCourseProgress\<close> returns 57, where 100 * 23 / 40 = 57.5
  rounds to 58. For an empty module list the result is 0.
\<close>

theorem progress_of_23_of_40:
  "calculateCourseProgress forty_lessons = 57 \<and> rounded_percentage 23 40 = 58 \<and>
   calculateCourseProgress [] = 0"
proof -
  have "calculateCourseProgress forty_lessons =
          Math_round (double_mul (double_div 23 40) 100)"
    by (simp add: calculateCourseProgress_def forty_lessons_def example_lesson_def)
  then have "calculateCourseProgress forty_lessons = 57"
    by (simp only: double_div_23_40 double_mul_100 Math_round_57)
  moreover have "rounded_percentage 23 40 = 58"
    by (simp add: rounded_percentage_def)
  moreover have "calculateCourseProgress [] = 0"
    by (simp add: calculateCourseProgress_def)
  ultimately show ?thesis by blast
qed



section \<open>Claims about the handlers\<close>







end
